theory Spec2Isabelle
  imports Main "HOL-Library.Word"
begin

section \<open>Asynchronous calls as traced results\<close>

text \<open>
  Every method of the three source files is an \<open>async\<close> function whose body awaits its
  collaborators one after the other. Such a body is modelled as a pair: what the promise
  settles to (\<open>Inl\<close> a rejection, \<open>Inr\<close> the value) and the list of calls made to
  collaborators, in order. An \<open>await\<close> is \<open>bind_io\<close>: a rejection stops the body, and
  nothing after it is called.
\<close>

type_synonym ('x, 'a, 'e) io = "('x + 'a) \<times> 'e list"

definition bind_io :: "('x, 'a, 'e) io \<Rightarrow> ('a \<Rightarrow> ('x, 'b, 'e) io) \<Rightarrow> ('x, 'b, 'e) io" where
  "bind_io m f =
     (case m of
        (Inl x, t) \<Rightarrow> (Inl x, t)
      | (Inr a, t) \<Rightarrow> (case f a of (r, t') \<Rightarrow> (r, t @ t')))"

definition call :: "'e \<Rightarrow> 'x + 'a \<Rightarrow> ('x, 'a, 'e) io" where
  \<comment> \<open>one call to a collaborator, recorded as the event \<open>ev\<close>, settling to \<open>r\<close>\<close>
  "call ev r = (r, [ev])"

definition local :: "'x + 'a \<Rightarrow> ('x, 'a, 'e) io" where
  \<comment> \<open>a computation of the service itself: no collaborator is called\<close>
  "local r = (r, [])"

section \<open>SemanticLayerService\<close>

subsection \<open>Data\<close>

datatype error =
    ForbiddenError
  | MissingConfigError string
  | OtherError string  \<comment> \<open>whatever a collaborator rejects with\<close>

text \<open>
  The configuration values are read only through \<open>!!\<close>: a value that is \<open>undefined\<close>
  (\<open>None\<close>) or the empty string counts as absent, any other string as present.
\<close>

fun truthy :: "string option \<Rightarrow> bool" where
  "truthy None = False"
| "truthy (Some s) = (s \<noteq> [])"

record DbtCloudConfig =
  bearerToken :: "string option"
  environmentId :: "string option"

record CubeConfig =
  token :: "string option"
  domain :: "string option"

record LightdashConfig =
  dbtCloud :: DbtCloudConfig
  cube :: CubeConfig
  siteUrl :: string

record Project =
  organizationUuid :: string

text \<open>The CASL subject \<open>subject('Project', {organizationUuid, projectUuid})\<close>, or a bare
  subject type such as \<open>'Group'\<close>.\<close>

datatype casl_subject =
    SubjectType string
  | subject string "(string \<times> string) list"

record SessionUser =
  userUuid :: string
  ability_cannot :: "string \<Rightarrow> casl_subject \<Rightarrow> bool"

text \<open>
  The two client objects held by the service. A reference to one of them is a tag;
  \<open>client_of\<close> reads the object behind the reference.
\<close>

datatype client_ref = DbtCloudClientRef | CubeClientRef

record ('q, 'sf, 'v, 'f, 'r) SemanticLayerClient =
  client_getViews :: "error + 'v list"
  client_getFields :: "string \<Rightarrow> 'sf \<Rightarrow> error + 'f list"
  client_getSql :: "'q \<Rightarrow> error + string"
  client_streamResults :: "string \<Rightarrow> 'q \<Rightarrow> (error + unit) \<times> 'r list list"
    \<comment> \<open>the batches of rows handed to the callback, and how the stream ended\<close>

record 'q SemanticLayerQueryPayload =
  payload_projectUuid :: string
  payload_userUuid :: string
  payload_query :: 'q
  payload_context :: string

record AnalyticsEvent =
  event :: string
  userId :: string
  organizationId :: string
  projectId :: string

datatype ('q, 'sf) call_event =
    ProjectModelGet string
  | LoggerDebug string
  | AnalyticsTrack string
  | ClientGetViews client_ref
  | ClientGetFields client_ref string 'sf
  | ClientGetSql client_ref 'q
  | ClientStreamResults client_ref string 'q
  | SchedulerSemanticLayerStreamingResults "'q SemanticLayerQueryPayload"
  | StreamFunction string

fun is_client_call :: "('q, 'sf) call_event \<Rightarrow> bool" where
  "is_client_call (ClientGetViews _) = True"
| "is_client_call (ClientGetFields _ _ _) = True"
| "is_client_call (ClientGetSql _ _) = True"
| "is_client_call (ClientStreamResults _ _ _) = True"
| "is_client_call _ = False"

fun is_scheduler_call :: "('q, 'sf) call_event \<Rightarrow> bool" where
  "is_scheduler_call (SchedulerSemanticLayerStreamingResults _) = True"
| "is_scheduler_call _ = False"

text \<open>
  The service object. \<open>ProjectModel.get\<close>, \<open>LightdashAnalytics.wrapEvent\<close>,
  \<open>DownloadFileModel.streamFunction\<close> and \<open>SchedulerClient\<close> are collaborators whose code
  is elsewhere: they are fields of the service, as in the constructor. \<open>wrapEvent\<close> and
  \<open>streamFunction\<close> take a callback; the callback is passed as the traced result of
  running it, and the collaborator decides what to do with it.
\<close>

record ('q, 'sf, 'v, 'f, 'r) SemanticLayerService =
  lightdashConfig :: LightdashConfig
  projectModel_get :: "string \<Rightarrow> error + Project"
  analytics_wrapEvent ::
    "AnalyticsEvent \<Rightarrow> (error, 'v list, ('q, 'sf) call_event) io \<Rightarrow> ('v list \<Rightarrow> nat)
       \<Rightarrow> (error, 'v list, ('q, 'sf) call_event) io"
  downloadFileModel_streamFunction ::
    "string \<Rightarrow> (error + unit) \<times> 'r list \<times> ('q, 'sf) call_event list
       \<Rightarrow> (error, string, ('q, 'sf) call_event) io"
  schedulerClient_semanticLayerStreamingResults ::
    "'q SemanticLayerQueryPayload \<Rightarrow> error + string"
  cubeClient :: "('q, 'sf, 'v, 'f, 'r) SemanticLayerClient"
  dbtCloudClient :: "('q, 'sf, 'v, 'f, 'r) SemanticLayerClient"

fun client_of ::
  "('q, 'sf, 'v, 'f, 'r) SemanticLayerService \<Rightarrow> client_ref
     \<Rightarrow> ('q, 'sf, 'v, 'f, 'r) SemanticLayerClient" where
  "client_of svc DbtCloudClientRef = dbtCloudClient svc"
| "client_of svc CubeClientRef = cubeClient svc"

subsection \<open>Operations\<close>

definition checkCanViewProject ::
  "('q, 'sf, 'v, 'f, 'r) SemanticLayerService \<Rightarrow> SessionUser \<Rightarrow> string
     \<Rightarrow> (error, Project, ('q, 'sf) call_event) io" where
  "checkCanViewProject svc user projectUuid =
     bind_io (call (ProjectModelGet projectUuid) (projectModel_get svc projectUuid))
       (\<lambda>project.
          if ability_cannot user ''view''
               (subject ''Project''
                  [(''organizationUuid'', organizationUuid project),
                   (''projectUuid'', projectUuid)])
          then local (Inl ForbiddenError)
          else local (Inr project))"

definition getSemanticLayerClient ::
  "('q, 'sf, 'v, 'f, 'r) SemanticLayerService \<Rightarrow> string \<Rightarrow> error + client_ref" where
  "getSemanticLayerClient svc projectUuid =
     (if truthy (bearerToken (dbtCloud (lightdashConfig svc))) \<and>
         truthy (environmentId (dbtCloud (lightdashConfig svc)))
      then Inr DbtCloudClientRef
      else if truthy (token (cube (lightdashConfig svc))) \<and>
              truthy (domain (cube (lightdashConfig svc)))
      then Inr CubeClientRef
      else Inl (MissingConfigError ''No semantic layer available''))"

definition getViews ::
  "('q, 'sf, 'v, 'f, 'r) SemanticLayerService \<Rightarrow> SessionUser \<Rightarrow> string
     \<Rightarrow> (error, 'v list, ('q, 'sf) call_event) io" where
  "getViews svc user projectUuid =
     bind_io (checkCanViewProject svc user projectUuid)
       (\<lambda>project.
          analytics_wrapEvent svc
            \<lparr>event = ''semantic_layer.get_views'',
             userId = userUuid user,
             organizationId = organizationUuid project,
             projectId = projectUuid\<rparr>
            (bind_io (local (getSemanticLayerClient svc projectUuid))
               (\<lambda>client. call (ClientGetViews client) (client_getViews (client_of svc client))))
            length)"

definition getFields ::
  "('q, 'sf, 'v, 'f, 'r) SemanticLayerService \<Rightarrow> SessionUser \<Rightarrow> string \<Rightarrow> string \<Rightarrow> 'sf
     \<Rightarrow> (error, 'f list, ('q, 'sf) call_event) io" where
  "getFields svc user projectUuid view selectedFields =
     bind_io (checkCanViewProject svc user projectUuid)
       (\<lambda>_. bind_io (local (getSemanticLayerClient svc projectUuid))
          (\<lambda>client. call (ClientGetFields client view selectedFields)
                       (client_getFields (client_of svc client) view selectedFields)))"

definition getStreamingResults ::
  "('q, 'sf, 'v, 'f, 'r) SemanticLayerService \<Rightarrow> SessionUser \<Rightarrow> string \<Rightarrow> 'q
     \<Rightarrow> (error, string, ('q, 'sf) call_event) io" where
  "getStreamingResults svc user projectUuid query =
     bind_io (checkCanViewProject svc user projectUuid)
       (\<lambda>_. bind_io (local (getSemanticLayerClient svc projectUuid))
          (\<lambda>_. bind_io
                  (call (SchedulerSemanticLayerStreamingResults
                           \<lparr>payload_projectUuid = projectUuid,
                            payload_userUuid = userUuid user,
                            payload_query = query,
                            payload_context = ''semanticViewer''\<rparr>)
                        (schedulerClient_semanticLayerStreamingResults svc
                           \<lparr>payload_projectUuid = projectUuid,
                            payload_userUuid = userUuid user,
                            payload_query = query,
                            payload_context = ''semanticViewer''\<rparr>))
                  (\<lambda>jobId. local (Inr jobId))))"

definition streamQueryIntoFile ::
  "('q, 'sf, 'v, 'f, 'r) SemanticLayerService \<Rightarrow> 'q SemanticLayerQueryPayload
     \<Rightarrow> (error, string, ('q, 'sf) call_event) io" where
  "streamQueryIntoFile svc payload =
     bind_io (call (LoggerDebug (''Streaming query into file for project '' @
                                 payload_projectUuid payload)) (Inr ()))
       (\<lambda>_. bind_io (local (getSemanticLayerClient svc (payload_projectUuid payload)))
          (\<lambda>client. bind_io
             (downloadFileModel_streamFunction svc
                (siteUrl (lightdashConfig svc) @ ''/api/v2/projects/'' @
                 payload_projectUuid payload @ ''/semantic-layer/results'')
                (case client_streamResults (client_of svc client)
                        (payload_projectUuid payload) (payload_query payload) of
                   (ended, batches) \<Rightarrow>
                     (ended, concat batches,
                      [ClientStreamResults client (payload_projectUuid payload)
                         (payload_query payload)])))
             (\<lambda>fileUrl. local (Inr fileUrl))))"

definition getSql ::
  "('q, 'sf, 'v, 'f, 'r) SemanticLayerService \<Rightarrow> SessionUser \<Rightarrow> string \<Rightarrow> 'q
     \<Rightarrow> (error, string, ('q, 'sf) call_event) io" where
  "getSql svc user projectUuid query =
     bind_io (checkCanViewProject svc user projectUuid)
       (\<lambda>_. bind_io (local (getSemanticLayerClient svc projectUuid))
          (\<lambda>client. call (ClientGetSql client query)
                       (client_getSql (client_of svc client) query)))"

section \<open>CreateGroupModal\<close>

text \<open>
  A JavaScript string is a sequence of 16-bit code units. \<open>String.prototype.trim\<close>
  strips, from both ends, the code points that are WhiteSpace or LineTerminator in
  ECMAScript; all of them are single code units.
\<close>

type_synonym js_string = "16 word list"

definition isWhiteSpace :: "16 word \<Rightarrow> bool" where
  "isWhiteSpace c =
     (c \<in> {0x0009, 0x000A, 0x000B, 0x000C, 0x000D, 0x0020, 0x00A0, 0x1680,
           0x2028, 0x2029, 0x202F, 0x205F, 0x3000, 0xFEFF}
      \<or> (0x2000 \<le> c \<and> c \<le> 0x200A))"

definition js_trim :: "js_string \<Rightarrow> js_string" where
  "js_trim s = rev (dropWhile isWhiteSpace (rev (dropWhile isWhiteSpace s)))"

record CreateGroup =
  name :: js_string

definition validate_name :: "js_string \<Rightarrow> string option" where
  \<comment> \<open>the rule \<open>validate.name\<close>: \<open>null\<close> accepts, a string is the error shown\<close>
  "validate_name v =
     (if length (js_trim v) \<noteq> 0 then None else Some ''Group name is required'')"

text \<open>What a promise of the frontend rejects with: an error answer of the API, or a
  \<open>TypeError\<close> thrown by the code itself.\<close>

datatype rejection = ApiError string | TypeError string

datatype modal_event =
    MutateAsync CreateGroup
  | FormReset
  | OnClose
  | FormSetErrors "(string \<times> string) list"

definition handleSubmit ::
  "(CreateGroup \<Rightarrow> rejection + unit) \<Rightarrow> CreateGroup \<Rightarrow> (rejection, unit, modal_event) io" where
  "handleSubmit mutateAsync values =
     bind_io (call (MutateAsync values) (mutateAsync values))
       (\<lambda>_. bind_io (call FormReset (Inr ()))
          (\<lambda>_. call OnClose (Inr ())))"

text \<open>
  \<open>form.onSubmit(handler)\<close> of \<open>@mantine/form\<close>, a library the component imports: on a
  submit event it runs the \<open>validate\<close> rules on the current values; when a rule returns
  an error it stores the errors and does not call the handler, otherwise it calls the
  handler with the values. The form has the single rule \<open>validate_name\<close>.
\<close>

definition form_onSubmit ::
  "(CreateGroup \<Rightarrow> (rejection, unit, modal_event) io) \<Rightarrow> CreateGroup
     \<Rightarrow> (rejection, unit, modal_event) io" where
  "form_onSubmit handler values =
     (case validate_name (name values) of
        Some err \<Rightarrow> call (FormSetErrors [(''name'', err)]) (Inr ())
      | None \<Rightarrow> handler values)"

definition submit_create_group ::
  "(CreateGroup \<Rightarrow> rejection + unit) \<Rightarrow> CreateGroup \<Rightarrow> (rejection, unit, modal_event) io" where
  \<comment> \<open>the form's \<open>onSubmit\<close> attribute\<close>
  "submit_create_group mutateAsync values =
     form_onSubmit (\<lambda>vs. handleSubmit mutateAsync vs) values"

text \<open>
  What \<open>useApp()\<close> gives: \<open>user.data\<close> may be undefined, and so may its \<open>ability\<close>; the
  ability is read through its \<open>cannot\<close> method.
\<close>

record UserData =
  ability :: "(string \<Rightarrow> casl_subject \<Rightarrow> bool) option"

record ModalProps =
  opened :: bool

record ModalElement =
  modal_opened :: bool
  modal_title :: string
  input_disabled :: bool
  button_disabled :: bool

definition cannot_manage_group :: "UserData option \<Rightarrow> bool" where
  \<comment> \<open>\<open>user.data?.ability?.cannot('manage', 'Group')\<close>, undefined being falsy\<close>
  "cannot_manage_group user_data =
     (case user_data of
        None \<Rightarrow> False
      | Some u \<Rightarrow>
          (case ability u of
             None \<Rightarrow> False
           | Some cannot \<Rightarrow> cannot ''manage'' (SubjectType ''Group'')))"

definition CreateGroupModal ::
  "ModalProps \<Rightarrow> UserData option \<Rightarrow> bool \<Rightarrow> ModalElement option" where
  \<comment> \<open>\<open>None\<close> is the \<open>null\<close> the component returns; \<open>isLoading\<close> comes from the mutation hook\<close>
  "CreateGroupModal props user_data isLoading =
     (if cannot_manage_group user_data then None
      else Some \<lparr>modal_opened = opened props,
                 modal_title = ''Create group'',
                 input_disabled = isLoading,
                 button_disabled = isLoading\<rparr>)"

section \<open>useSqlQueryRun\<close>

record ('r, 'c) ResultsAndColumns =
  results :: "'r list"
  columns :: "'c list"

datatype SchedulerJobStatus = SCHEDULED | STARTED | COMPLETED | ERROR

text \<open>
  The details of a job are either error details (they carry \<open>error\<close>) or the details of
  a finished query (\<open>fileUrl\<close> and \<open>columns\<close>), and they may be absent. \<open>isErrorDetails\<close> is
  the type guard of the error member, declared in \<open>@lightdash/common\<close>: it reads \<open>.error\<close>
  of its argument, so on absent details the read throws a \<open>TypeError\<close>. The hook tests
  \<open>job.details\<close> before calling the guard at lines 237 and 245, and calls it unguarded at
  line 227.
\<close>

datatype 'c job_details =
    ErrorDetails string
  | ResultsDetails string "'c list"

record 'c Job =
  status :: SchedulerJobStatus
  details :: "'c job_details option"

fun isErrorDetails :: "'c job_details option \<Rightarrow> rejection + bool" where
  "isErrorDetails None = Inl (TypeError ''Cannot read properties of undefined (reading error)'')"
| "isErrorDetails (Some (ErrorDetails _)) = Inr True"
| "isErrorDetails (Some (ResultsDetails _ _)) = Inr False"

fun details_error :: "'c job_details option \<Rightarrow> string option" where
  \<comment> \<open>\<open>job.details.error\<close>\<close>
  "details_error (Some (ErrorDetails err)) = Some err"
| "details_error _ = None"

fun details_fileUrl :: "'c job_details option \<Rightarrow> string option" where
  \<comment> \<open>\<open>job.details.fileUrl\<close>\<close>
  "details_fileUrl (Some (ResultsDetails file_url _)) = Some file_url"
| "details_fileUrl _ = None"

fun details_columns :: "'c job_details option \<Rightarrow> 'c list" where
  \<comment> \<open>\<open>job.details.columns\<close>, read only behind the guard that the details are results\<close>
  "details_columns (Some (ResultsDetails _ cols)) = cols"
| "details_columns _ = []"

record ScheduledJob =
  jobId :: string

datatype ('r, 'c) hook_event =
    LightdashApi string string string "int option"
  | GetSqlRunnerCompleteJob string
  | GetResultsFromStream "string option"
  | ShowToastError string "string option"
  | OnSuccess "('r, 'c) ResultsAndColumns option"

text \<open>The network helpers the hook awaits: \<open>lightdashApi\<close>, \<open>getSqlRunnerCompleteJob\<close>
  and \<open>getResultsFromStream\<close>.\<close>

record ('r, 'c) requestUtils =
  lightdashApi :: "string \<Rightarrow> string \<Rightarrow> string \<Rightarrow> int option \<Rightarrow> rejection + ScheduledJob"
  getSqlRunnerCompleteJob :: "string \<Rightarrow> rejection + 'c Job"
  getResultsFromStream :: "string option \<Rightarrow> rejection + 'r list"

definition scheduleSqlJob ::
  "('r, 'c) requestUtils \<Rightarrow> string \<Rightarrow> string \<Rightarrow> int option
     \<Rightarrow> (rejection, ScheduledJob, ('r, 'c) hook_event) io" where
  "scheduleSqlJob api projectUuid sql limit =
     call (LightdashApi (''/projects/'' @ projectUuid @ ''/sqlRunner/run'') ''POST'' sql limit)
          (lightdashApi api (''/projects/'' @ projectUuid @ ''/sqlRunner/run'') ''POST'' sql limit)"

definition mutationFn ::
  "('r, 'c) requestUtils \<Rightarrow> string \<Rightarrow> string \<Rightarrow> int option
     \<Rightarrow> (rejection, ('r, 'c) ResultsAndColumns option, ('r, 'c) hook_event) io" where
  "mutationFn api projectUuid sql limit =
     bind_io (scheduleSqlJob api projectUuid sql limit)
       (\<lambda>scheduledJob.
          bind_io (call (GetSqlRunnerCompleteJob (jobId scheduledJob))
                        (getSqlRunnerCompleteJob api (jobId scheduledJob)))
            (\<lambda>job.
               if status job = ERROR then
                 bind_io (local (isErrorDetails (details job)))
                   (\<lambda>is_error.
                      bind_io
                        (if is_error
                         then call (ShowToastError ''Could not run SQL query''
                                      (details_error (details job))) (Inr ())
                         else local (Inr ()))
                        (\<lambda>_. local (Inr None)))
               else
                 (let url = (if details job \<noteq> None \<and>
                                isErrorDetails (details job) = Inr False
                             then details_fileUrl (details job) else None)
                  in bind_io (call (GetResultsFromStream url) (getResultsFromStream api url))
                       (\<lambda>rows.
                          local (Inr (Some
                            \<lparr>results = rows,
                             columns =
                               (if details job \<noteq> None \<and>
                                   isErrorDetails (details job) = Inr False
                                then details_columns (details job) else [])\<rparr>))))))"

text \<open>
  The hook's own state: \<open>data\<close> (\<open>useState\<close>), \<open>previousDataRef\<close> (\<open>useRef\<close>) and the
  \<open>isLoading\<close> flag of \<open>useMutation\<close>. \<open>useMutation\<close> of \<open>@tanstack/react-query\<close> is a
  library: \<open>mutate\<close> calls \<open>onMutate\<close> and raises \<open>isLoading\<close>, runs the mutation function
  once (no \<open>retry\<close> option is given, and mutations are not retried by default), then calls
  \<open>onSuccess\<close> with the value it resolved to or \<open>onError\<close> when it rejected, and lowers
  \<open>isLoading\<close>.
\<close>

record ('r, 'c) hook_state =
  data :: "('r, 'c) ResultsAndColumns option"
  previousDataRef :: "('r, 'c) ResultsAndColumns option"
  isLoading :: bool

definition initial_hook_state :: "('r, 'c) hook_state" where
  "initial_hook_state = \<lparr>data = None, previousDataRef = None, isLoading = False\<rparr>"

definition onMutate :: "('r, 'c) hook_state \<Rightarrow> ('r, 'c) hook_state" where
  "onMutate st = st\<lparr>previousDataRef := data st\<rparr>"

definition onSuccess ::
  "('r, 'c) ResultsAndColumns option \<Rightarrow> ('r, 'c) hook_state
     \<Rightarrow> ('r, 'c) hook_state \<times> ('r, 'c) hook_event list" where
  "onSuccess newData st = (st\<lparr>data := newData\<rparr>, [OnSuccess newData])"

definition onError ::
  "('r, 'c) hook_state \<Rightarrow> ('r, 'c) hook_state \<times> ('r, 'c) hook_event list" where
  "onError st = (st, [ShowToastError ''Could not fetch SQL query results'' None])"

definition mutate_start :: "('r, 'c) hook_state \<Rightarrow> ('r, 'c) hook_state" where
  \<comment> \<open>the state seen by every render while the mutation function runs\<close>
  "mutate_start st = (onMutate st)\<lparr>isLoading := True\<rparr>"

definition mutate_settle ::
  "('r, 'c) requestUtils \<Rightarrow> string \<Rightarrow> string \<Rightarrow> int option \<Rightarrow> ('r, 'c) hook_state
     \<Rightarrow> ('r, 'c) hook_state \<times> ('r, 'c) hook_event list" where
  "mutate_settle api projectUuid sql limit st =
     (case mutationFn api projectUuid sql limit of
        (Inr newData, t) \<Rightarrow>
          (case onSuccess newData st of (st', t') \<Rightarrow> (st'\<lparr>isLoading := False\<rparr>, t @ t'))
      | (Inl err, t) \<Rightarrow>
          (case onError st of (st', t') \<Rightarrow> (st'\<lparr>isLoading := False\<rparr>, t @ t')))"

definition mutate ::
  "('r, 'c) requestUtils \<Rightarrow> string \<Rightarrow> string \<Rightarrow> int option \<Rightarrow> ('r, 'c) hook_state
     \<Rightarrow> ('r, 'c) hook_state \<times> ('r, 'c) hook_event list" where
  "mutate api projectUuid sql limit st =
     mutate_settle api projectUuid sql limit (mutate_start st)"

definition currentData :: "('r, 'c) hook_state \<Rightarrow> ('r, 'c) ResultsAndColumns option" where
  \<comment> \<open>the \<open>data\<close> the hook returns\<close>
  "currentData st = (if isLoading st then previousDataRef st else data st)"

fun is_toast :: "('r, 'c) hook_event \<Rightarrow> bool" where
  "is_toast (ShowToastError _ _) = True"
| "is_toast _ = False"

fun is_request :: "('r, 'c) hook_event \<Rightarrow> bool" where
  "is_request (LightdashApi _ _ _ _) = True"
| "is_request (GetSqlRunnerCompleteJob _) = True"
| "is_request (GetResultsFromStream _) = True"
| "is_request _ = False"

section \<open>Concrete services, users and jobs\<close>

text \<open>
  Small concrete instances, on which the operations are run further down. Queries,
  views, fields and rows are strings here.
\<close>

definition config_of :: "string option \<Rightarrow> string option \<Rightarrow> string option \<Rightarrow> string option
                           \<Rightarrow> LightdashConfig" where
  "config_of bt env tok dmn =
     \<lparr>dbtCloud = \<lparr>bearerToken = bt, environmentId = env\<rparr>,
      cube = \<lparr>token = tok, domain = dmn\<rparr>,
      siteUrl = ''https://lightdash.example''\<rparr>"

definition demo_client ::
  "string \<Rightarrow> (string, string list, string, string, string) SemanticLayerClient" where
  "demo_client nm =
     \<lparr>client_getViews = Inr [nm @ ''_orders''],
      client_getFields = (\<lambda>view selectedFields. Inr (view # selectedFields)),
      client_getSql = (\<lambda>query. Inr (''SELECT '' @ query @ '' FROM '' @ nm)),
      client_streamResults = (\<lambda>projectUuid query. (Inr (), [[''row1'', ''row2''], [''row3'']]))\<rparr>"

definition demo_service ::
  "LightdashConfig \<Rightarrow> (string, string list, string, string, string) SemanticLayerService" where
  "demo_service cfg =
     \<lparr>lightdashConfig = cfg,
      projectModel_get =
        (\<lambda>projectUuid. if projectUuid = ''p1'' then Inr \<lparr>organizationUuid = ''org1''\<rparr>
                        else Inl (OtherError ''NotFoundError'')),
      analytics_wrapEvent =
        (\<lambda>ev body extra.
           (fst body,
            AnalyticsTrack (event ev @ ''.started'') # snd body @
            [AnalyticsTrack (event ev @ (case fst body of Inl _ \<Rightarrow> ''.error''
                                          | Inr _ \<Rightarrow> ''.completed''))])),
      downloadFileModel_streamFunction =
        (\<lambda>url body.
           (case fst body of Inl e \<Rightarrow> Inl e | Inr _ \<Rightarrow> Inr (url @ ''/file1''),
            StreamFunction url # snd (snd body))),
      schedulerClient_semanticLayerStreamingResults = (\<lambda>payload. Inr ''job1''),
      cubeClient = demo_client ''cube'',
      dbtCloudClient = demo_client ''dbt''\<rparr>"

definition viewer :: SessionUser where
  "viewer = \<lparr>userUuid = ''u1'', ability_cannot = (\<lambda>action subj. False)\<rparr>"

definition outsider :: SessionUser where
  "outsider = \<lparr>userUuid = ''u2'', ability_cannot = (\<lambda>action subj. True)\<rparr>"

definition demo_api ::
  "string Job \<Rightarrow> (string, string) requestUtils" where
  "demo_api job =
     \<lparr>lightdashApi = (\<lambda>url method sql limit. Inr \<lparr>jobId = ''job1''\<rparr>),
      getSqlRunnerCompleteJob = (\<lambda>job_id. Inr job),
      getResultsFromStream =
        (\<lambda>url. case url of None \<Rightarrow> Inl (ApiError ''no url'') | Some _ \<Rightarrow> Inr [''row1''])\<rparr>"

definition offline_api :: "(string, string) requestUtils" where
  "offline_api =
     \<lparr>lightdashApi = (\<lambda>url method sql limit. Inl (ApiError ''network'')),
      getSqlRunnerCompleteJob = (\<lambda>job_id. Inl (ApiError ''network'')),
      getResultsFromStream = (\<lambda>url. Inl (ApiError ''network''))\<rparr>"

definition shown_before :: "(string, string) hook_state" where
  "shown_before =
     \<lparr>data = Some \<lparr>results = [''old''], columns = [''c'']\<rparr>,
      previousDataRef = None, isLoading = False\<rparr>"

section \<open>Awaiting, and the permission check\<close>

lemma bind_io_Inl: "bind_io (Inl x, t) f = (Inl x, t)"
  by (simp add: bind_io_def)

lemma bind_io_Inr: "bind_io (Inr a, t) f = (fst (f a), t @ snd (f a))"
  by (simp add: bind_io_def split: prod.splits)

lemma snd_bind_io_prefix: "\<exists>rest. snd (bind_io m f) = snd m @ rest"
  by (cases m; cases "fst m") (auto simp: bind_io_def split: prod.splits sum.splits)

lemma checkCanViewProject_trace:
  "snd (checkCanViewProject svc user projectUuid) = [ProjectModelGet projectUuid]"
  by (cases "projectModel_get svc projectUuid")
     (simp_all add: checkCanViewProject_def call_def local_def bind_io_Inl bind_io_Inr)

lemma checkCanViewProject_forbidden:
  assumes "projectModel_get svc projectUuid = Inr project"
    and "ability_cannot user ''view''
           (subject ''Project''
              [(''organizationUuid'', organizationUuid project), (''projectUuid'', projectUuid)])"
  shows "checkCanViewProject svc user projectUuid = (Inl ForbiddenError, [ProjectModelGet projectUuid])"
  using assms by (simp add: checkCanViewProject_def call_def local_def bind_io_Inr)

lemma checkCanViewProject_allowed:
  assumes "projectModel_get svc projectUuid = Inr project"
    and "\<not> ability_cannot user ''view''
           (subject ''Project''
              [(''organizationUuid'', organizationUuid project), (''projectUuid'', projectUuid)])"
  shows "checkCanViewProject svc user projectUuid = (Inr project, [ProjectModelGet projectUuid])"
  using assms by (simp add: checkCanViewProject_def call_def local_def bind_io_Inr)

lemma starts_with_check:
  "\<exists>rest. snd (bind_io (checkCanViewProject svc user projectUuid) f) = ProjectModelGet projectUuid # rest"
  using snd_bind_io_prefix [of "checkCanViewProject svc user projectUuid" f]
  by (simp add: checkCanViewProject_trace)

lemma refused_stops:
  assumes "checkCanViewProject svc user projectUuid = (Inl e, t)"
  shows "bind_io (checkCanViewProject svc user projectUuid) f = (Inl e, t)"
  using assms by (simp add: bind_io_Inl)

section \<open>Client selection\<close>

text \<open>
  C2. \<open>getSemanticLayerClient\<close> selects the dbt Cloud client exactly when the dbt Cloud
  bearer token and environment id are both set, whatever the Cube values are (so also
  when both pairs are complete), and it selects the Cube client exactly when the dbt
  Cloud pair is incomplete and the Cube token and domain are both set. A value is set
  when \<open>!!\<close> holds of it: it is defined and not the empty string.
\<close>

theorem getSemanticLayerClient_precedence:
  "(getSemanticLayerClient svc projectUuid = Inr DbtCloudClientRef \<longleftrightarrow>
      truthy (bearerToken (dbtCloud (lightdashConfig svc))) \<and>
      truthy (environmentId (dbtCloud (lightdashConfig svc)))) \<and>
   (getSemanticLayerClient svc projectUuid = Inr CubeClientRef \<longleftrightarrow>
      \<not> (truthy (bearerToken (dbtCloud (lightdashConfig svc))) \<and>
         truthy (environmentId (dbtCloud (lightdashConfig svc)))) \<and>
      truthy (token (cube (lightdashConfig svc))) \<and>
      truthy (domain (cube (lightdashConfig svc))))"
  by (simp add: getSemanticLayerClient_def)

theorem getSemanticLayerClient_precedence_witness:
  "truthy (Some ''tok'') \<and> truthy (Some ''env1'') \<and>
   getSemanticLayerClient
     (demo_service (config_of (Some ''tok'') (Some ''env1'') (Some ''ctok'') (Some ''cube.example'')))
     ''p1'' = Inr DbtCloudClientRef \<and>
   \<not> truthy (Some '''') \<and>
   getSemanticLayerClient
     (demo_service (config_of (Some '''') (Some ''env1'') (Some ''ctok'') (Some ''cube.example'')))
     ''p1'' = Inr CubeClientRef"
  using getSemanticLayerClient_precedence
          [of "demo_service (config_of (Some ''tok'') (Some ''env1'') (Some ''ctok'') (Some ''cube.example''))" "''p1''"]
        getSemanticLayerClient_precedence
          [of "demo_service (config_of (Some '''') (Some ''env1'') (Some ''ctok'') (Some ''cube.example''))" "''p1''"]
  by (simp add: demo_service_def config_of_def)

text \<open>
  C3. \<open>getSemanticLayerClient\<close> throws the MissingConfigError
  \<open>'No semantic layer available'\<close> if and only if neither pair is complete; it throws
  nothing else, and it returns a client if and only if one of the pairs is complete.
\<close>

theorem getSemanticLayerClient_missing_config:
  "(getSemanticLayerClient svc projectUuid = Inl (MissingConfigError ''No semantic layer available'') \<longleftrightarrow>
      \<not> (truthy (bearerToken (dbtCloud (lightdashConfig svc))) \<and>
         truthy (environmentId (dbtCloud (lightdashConfig svc)))) \<and>
      \<not> (truthy (token (cube (lightdashConfig svc))) \<and>
         truthy (domain (cube (lightdashConfig svc))))) \<and>
   ((\<exists>e. getSemanticLayerClient svc projectUuid = Inl e) \<longleftrightarrow>
      getSemanticLayerClient svc projectUuid = Inl (MissingConfigError ''No semantic layer available'')) \<and>
   ((\<exists>client. getSemanticLayerClient svc projectUuid = Inr client) \<longleftrightarrow>
      (truthy (bearerToken (dbtCloud (lightdashConfig svc))) \<and>
       truthy (environmentId (dbtCloud (lightdashConfig svc)))) \<or>
      (truthy (token (cube (lightdashConfig svc))) \<and>
       truthy (domain (cube (lightdashConfig svc)))))"
  by (simp add: getSemanticLayerClient_def)

theorem getSemanticLayerClient_missing_config_witness:
  "\<not> (truthy (Some ''tok'') \<and> truthy None) \<and> \<not> (truthy None \<and> truthy (Some ''cube.example'')) \<and>
   getSemanticLayerClient
     (demo_service (config_of (Some ''tok'') None None (Some ''cube.example''))) ''p1''
     = Inl (MissingConfigError ''No semantic layer available'')"
  using getSemanticLayerClient_missing_config
          [of "demo_service (config_of (Some ''tok'') None None (Some ''cube.example''))" "''p1''"]
  by (simp add: demo_service_def config_of_def)

text \<open>
  C8. The selection made by \<open>getSemanticLayerClient\<close> does not depend on the project
  uuid it is given: under one configuration any two project uuids get the same answer,
  be it the dbt Cloud client, the Cube client or the MissingConfigError.
\<close>

theorem getSemanticLayerClient_ignores_project:
  "getSemanticLayerClient svc projectUuid1 = getSemanticLayerClient svc projectUuid2"
  by (simp add: getSemanticLayerClient_def)

section \<open>The authorization gate\<close>

text \<open>
  C1 (as amended). \<open>getViews\<close>, \<open>getFields\<close>, \<open>getStreamingResults\<close> and \<open>getSql\<close> begin
  by resolving the owning project, and when the project resolves and the caller's
  ability cannot view it they throw ForbiddenError having called nothing else: no
  client, no scheduler. \<open>streamQueryIntoFile\<close> is given a job payload with a user uuid,
  not a session user; it does not begin with the project lookup and permission check:
  its first call is its log line.
\<close>

theorem entry_points_check_permission_first:
  "(\<exists>rest. snd (getViews svc user projectUuid) = ProjectModelGet projectUuid # rest) \<and>
   (\<exists>rest. snd (getFields svc user projectUuid view selectedFields)
             = ProjectModelGet projectUuid # rest) \<and>
   (\<exists>rest. snd (getStreamingResults svc user projectUuid query)
             = ProjectModelGet projectUuid # rest) \<and>
   (\<exists>rest. snd (getSql svc user projectUuid query) = ProjectModelGet projectUuid # rest) \<and>
   (projectModel_get svc projectUuid = Inr project \<and>
    ability_cannot user ''view''
      (subject ''Project''
         [(''organizationUuid'', organizationUuid project), (''projectUuid'', projectUuid)])
    \<longrightarrow>
      getViews svc user projectUuid = (Inl ForbiddenError, [ProjectModelGet projectUuid]) \<and>
      getFields svc user projectUuid view selectedFields
        = (Inl ForbiddenError, [ProjectModelGet projectUuid]) \<and>
      getStreamingResults svc user projectUuid query
        = (Inl ForbiddenError, [ProjectModelGet projectUuid]) \<and>
      getSql svc user projectUuid query = (Inl ForbiddenError, [ProjectModelGet projectUuid])) \<and>
   (\<exists>rest. snd (streamQueryIntoFile svc payload)
             = LoggerDebug (''Streaming query into file for project '' @
                            payload_projectUuid payload) # rest)"
proof -
  have first: "\<exists>rest. snd (getViews svc user projectUuid) = ProjectModelGet projectUuid # rest"
    "\<exists>rest. snd (getFields svc user projectUuid view selectedFields)
             = ProjectModelGet projectUuid # rest"
    "\<exists>rest. snd (getStreamingResults svc user projectUuid query)
             = ProjectModelGet projectUuid # rest"
    "\<exists>rest. snd (getSql svc user projectUuid query) = ProjectModelGet projectUuid # rest"
    unfolding getViews_def getFields_def getStreamingResults_def getSql_def
    by (rule starts_with_check)+
  have refused: "getViews svc user projectUuid = (Inl ForbiddenError, [ProjectModelGet projectUuid]) \<and>
      getFields svc user projectUuid view selectedFields
        = (Inl ForbiddenError, [ProjectModelGet projectUuid]) \<and>
      getStreamingResults svc user projectUuid query
        = (Inl ForbiddenError, [ProjectModelGet projectUuid]) \<and>
      getSql svc user projectUuid query = (Inl ForbiddenError, [ProjectModelGet projectUuid])"
    if "projectModel_get svc projectUuid = Inr project"
      and "ability_cannot user ''view''
        (subject ''Project''
           [(''organizationUuid'', organizationUuid project), (''projectUuid'', projectUuid)])"
    using checkCanViewProject_forbidden [OF that]
    by (simp add: getViews_def getFields_def getStreamingResults_def getSql_def bind_io_Inl)
  have logs: "\<exists>rest. snd (streamQueryIntoFile svc payload)
             = LoggerDebug (''Streaming query into file for project '' @
                            payload_projectUuid payload) # rest"
    unfolding streamQueryIntoFile_def
    using snd_bind_io_prefix
            [of "call (LoggerDebug (''Streaming query into file for project '' @
                                    payload_projectUuid payload)) (Inr ())"]
    by (simp add: call_def)
  from first refused logs show ?thesis by blast
qed

theorem entry_points_check_permission_first_witness:
  "projectModel_get (demo_service (config_of (Some ''tok'') (Some ''env1'') None None)) ''p1''
     = Inr \<lparr>organizationUuid = ''org1''\<rparr> \<and>
   ability_cannot outsider ''view''
     (subject ''Project'' [(''organizationUuid'', ''org1''), (''projectUuid'', ''p1'')]) \<and>
   getViews (demo_service (config_of (Some ''tok'') (Some ''env1'') None None)) outsider ''p1''
     = (Inl ForbiddenError, [ProjectModelGet ''p1'']) \<and>
   getStreamingResults (demo_service (config_of (Some ''tok'') (Some ''env1'') None None))
       outsider ''p1'' ''revenue''
     = (Inl ForbiddenError, [ProjectModelGet ''p1''])"
proof -
  have h: "projectModel_get (demo_service (config_of (Some ''tok'') (Some ''env1'') None None)) ''p1''
             = Inr \<lparr>organizationUuid = ''org1''\<rparr> \<and>
           ability_cannot outsider ''view''
             (subject ''Project''
                [(''organizationUuid'', organizationUuid \<lparr>organizationUuid = ''org1''\<rparr>),
                 (''projectUuid'', ''p1'')])"
    by (simp add: demo_service_def outsider_def)
  from h entry_points_check_permission_first
         [of "demo_service (config_of (Some ''tok'') (Some ''env1'') None None)" outsider "''p1''"
             _ _ "''revenue''" "\<lparr>organizationUuid = ''org1''\<rparr>"]
  show ?thesis by simp
qed

text \<open>
  C1 as written fails for \<open>streamQueryIntoFile\<close>: for a user whose permission check on
  project \<open>p1\<close> throws ForbiddenError, the operation run with that user's uuid resolves
  no project, streams from the dbt Cloud client and returns the file url.
\<close>

theorem streamQueryIntoFile_without_permission_check:
  "checkCanViewProject
     (demo_service (config_of (Some ''tok'') (Some ''env1'') None None)) outsider ''p1''
     = (Inl ForbiddenError, [ProjectModelGet ''p1'']) \<and>
   streamQueryIntoFile
     (demo_service (config_of (Some ''tok'') (Some ''env1'') None None))
     \<lparr>payload_projectUuid = ''p1'', payload_userUuid = userUuid outsider,
      payload_query = ''revenue'', payload_context = ''semanticViewer''\<rparr>
     = (Inr ''https://lightdash.example/api/v2/projects/p1/semantic-layer/results/file1'',
        [LoggerDebug ''Streaming query into file for project p1'',
         StreamFunction ''https://lightdash.example/api/v2/projects/p1/semantic-layer/results'',
         ClientStreamResults DbtCloudClientRef ''p1'' ''revenue''])"
  by (simp add: checkCanViewProject_def streamQueryIntoFile_def getSemanticLayerClient_def
        demo_service_def demo_client_def config_of_def outsider_def
        bind_io_def call_def local_def)

text \<open>
  C4. When the permission check fails (the project resolves and the user's ability
  cannot view it), \<open>getViews\<close>, \<open>getFields\<close>, \<open>getSql\<close> and \<open>getStreamingResults\<close> throw
  ForbiddenError, and among the calls they made there is no call of a semantic-layer
  client and no job submitted to the scheduler.
\<close>

theorem forbidden_user_no_client_call:
  assumes "projectModel_get svc projectUuid = Inr project"
    and "ability_cannot user ''view''
           (subject ''Project''
              [(''organizationUuid'', organizationUuid project), (''projectUuid'', projectUuid)])"
  shows "fst (getViews svc user projectUuid) = Inl ForbiddenError \<and>
         (\<forall>ev \<in> set (snd (getViews svc user projectUuid)).
            \<not> is_client_call ev \<and> \<not> is_scheduler_call ev) \<and>
         fst (getFields svc user projectUuid view selectedFields) = Inl ForbiddenError \<and>
         (\<forall>ev \<in> set (snd (getFields svc user projectUuid view selectedFields)).
            \<not> is_client_call ev \<and> \<not> is_scheduler_call ev) \<and>
         fst (getSql svc user projectUuid query) = Inl ForbiddenError \<and>
         (\<forall>ev \<in> set (snd (getSql svc user projectUuid query)).
            \<not> is_client_call ev \<and> \<not> is_scheduler_call ev) \<and>
         fst (getStreamingResults svc user projectUuid query) = Inl ForbiddenError \<and>
         (\<forall>ev \<in> set (snd (getStreamingResults svc user projectUuid query)).
            \<not> is_client_call ev \<and> \<not> is_scheduler_call ev)"
proof -
  note stop = refused_stops [OF checkCanViewProject_forbidden [OF assms]]
  show ?thesis
    unfolding getViews_def getFields_def getSql_def getStreamingResults_def
    by (simp add: stop)
qed

theorem forbidden_user_no_client_call_witness:
  "projectModel_get (demo_service (config_of None None (Some ''ctok'') (Some ''cube.example''))) ''p1''
     = Inr \<lparr>organizationUuid = ''org1''\<rparr> \<and>
   ability_cannot outsider ''view''
     (subject ''Project'' [(''organizationUuid'', ''org1''), (''projectUuid'', ''p1'')]) \<and>
   fst (getSql (demo_service (config_of None None (Some ''ctok'') (Some ''cube.example'')))
          outsider ''p1'' ''revenue'') = Inl ForbiddenError \<and>
   list_all (\<lambda>ev. \<not> is_client_call ev \<and> \<not> is_scheduler_call ev)
     (snd (getStreamingResults
             (demo_service (config_of None None (Some ''ctok'') (Some ''cube.example'')))
             outsider ''p1'' ''revenue''))"
proof -
  have h1: "projectModel_get (demo_service (config_of None None (Some ''ctok'') (Some ''cube.example''))) ''p1''
             = Inr \<lparr>organizationUuid = ''org1''\<rparr>"
    by (simp add: demo_service_def)
  have h2: "ability_cannot outsider ''view''
             (subject ''Project''
                [(''organizationUuid'', organizationUuid \<lparr>organizationUuid = ''org1''\<rparr>),
                 (''projectUuid'', ''p1'')])"
    by (simp add: outsider_def)
  from h1 h2 forbidden_user_no_client_call [OF h1 h2, of _ _ "''revenue''"]
  show ?thesis by (simp add: list_all_iff)
qed

section \<open>Forwarding\<close>

text \<open>
  C5. When the caller may view the project and a client is configured, \<open>getSql\<close>
  settles to exactly what the selected client's \<open>getSql\<close> gives for the same query, and
  \<open>getFields\<close> to exactly what the selected client's \<open>getFields\<close> gives for the same view
  and selected fields; the client is called once, with the arguments unchanged.
\<close>

theorem getSql_getFields_forward:
  assumes "projectModel_get svc projectUuid = Inr project"
    and "\<not> ability_cannot user ''view''
           (subject ''Project''
              [(''organizationUuid'', organizationUuid project), (''projectUuid'', projectUuid)])"
    and "getSemanticLayerClient svc projectUuid = Inr client"
  shows "getSql svc user projectUuid query
           = (client_getSql (client_of svc client) query,
              [ProjectModelGet projectUuid, ClientGetSql client query]) \<and>
         getFields svc user projectUuid view selectedFields
           = (client_getFields (client_of svc client) view selectedFields,
              [ProjectModelGet projectUuid, ClientGetFields client view selectedFields])"
  using checkCanViewProject_allowed [OF assms(1,2)] assms(3)
  by (simp add: getSql_def getFields_def bind_io_Inr local_def call_def)

theorem getSql_getFields_forward_witness:
  "projectModel_get (demo_service (config_of None None (Some ''ctok'') (Some ''cube.example''))) ''p1''
     = Inr \<lparr>organizationUuid = ''org1''\<rparr> \<and>
   \<not> ability_cannot viewer ''view''
     (subject ''Project'' [(''organizationUuid'', ''org1''), (''projectUuid'', ''p1'')]) \<and>
   getSemanticLayerClient (demo_service (config_of None None (Some ''ctok'') (Some ''cube.example'')))
     ''p1'' = Inr CubeClientRef \<and>
   getSql (demo_service (config_of None None (Some ''ctok'') (Some ''cube.example'')))
     viewer ''p1'' ''revenue''
     = (Inr ''SELECT revenue FROM cube'', [ProjectModelGet ''p1'', ClientGetSql CubeClientRef ''revenue'']) \<and>
   getFields (demo_service (config_of None None (Some ''ctok'') (Some ''cube.example'')))
     viewer ''p1'' ''orders'' [''amount'']
     = (Inr [''orders'', ''amount''],
        [ProjectModelGet ''p1'', ClientGetFields CubeClientRef ''orders'' [''amount'']])"
proof -
  have h1: "projectModel_get (demo_service (config_of None None (Some ''ctok'') (Some ''cube.example''))) ''p1''
             = Inr \<lparr>organizationUuid = ''org1''\<rparr>"
    by (simp add: demo_service_def)
  have h2: "\<not> ability_cannot viewer ''view''
             (subject ''Project''
                [(''organizationUuid'', organizationUuid \<lparr>organizationUuid = ''org1''\<rparr>),
                 (''projectUuid'', ''p1'')])"
    by (simp add: viewer_def)
  have h3: "getSemanticLayerClient (demo_service (config_of None None (Some ''ctok'') (Some ''cube.example'')))
     ''p1'' = Inr CubeClientRef"
    by (simp add: getSemanticLayerClient_def demo_service_def config_of_def)
  from h1 h2 h3 getSql_getFields_forward [OF h1 h2 h3, of "''revenue''" "''orders''" "[''amount'']"]
  show ?thesis by (simp add: demo_service_def demo_client_def)
qed

section \<open>CreateGroupModal: validation and visibility\<close>

lemma all_dropWhile_iff:
  "(\<forall>x \<in> set (dropWhile P xs). P x) \<longleftrightarrow> (\<forall>x \<in> set xs. P x)"
  by (induction xs) auto

lemma js_trim_empty_iff: "js_trim s = [] \<longleftrightarrow> (\<forall>c \<in> set s. isWhiteSpace c)"
  by (simp add: js_trim_def all_dropWhile_iff)

lemma validate_name_cases:
  "validate_name v = (if js_trim v = [] then Some ''Group name is required'' else None)"
  by (simp add: validate_name_def)

lemma js_trim_example: "js_trim [0x20, 0x41, 0x20, 0x42, 0x0A] = [0x41, 0x20, 0x42]"
  by (simp add: js_trim_def isWhiteSpace_def)

text \<open>
  C7. The rule on the group name accepts a name if and only if its trim is not empty,
  that is, if and only if the name has a character that is not white space. When the
  submitted name is empty or all white space, the rule answers
  \<open>'Group name is required'\<close> and the submission only stores that error: the
  create-group mutation is not called. A name that passes goes to the mutation.
\<close>

theorem create_group_name_validation:
  "(validate_name v = None \<longleftrightarrow> js_trim v \<noteq> []) \<and>
   (js_trim v \<noteq> [] \<longleftrightarrow> (\<exists>c \<in> set v. \<not> isWhiteSpace c)) \<and>
   (js_trim (name values) = [] \<longrightarrow>
      validate_name (name values) = Some ''Group name is required'' \<and>
      submit_create_group mutateAsync values
        = (Inr (), [FormSetErrors [(''name'', ''Group name is required'')]])) \<and>
   (js_trim (name values) \<noteq> [] \<longrightarrow>
      (\<exists>rest. snd (submit_create_group mutateAsync values) = MutateAsync values # rest))"
proof -
  have accepted: "\<exists>rest. snd (submit_create_group mutateAsync values) = MutateAsync values # rest"
    if "js_trim (name values) \<noteq> []"
    using that snd_bind_io_prefix [of "call (MutateAsync values) (mutateAsync values)"]
    by (simp add: submit_create_group_def form_onSubmit_def validate_name_cases
          handleSubmit_def call_def)
  have refused: "submit_create_group mutateAsync values
        = (Inr (), [FormSetErrors [(''name'', ''Group name is required'')]])"
    if "js_trim (name values) = []"
    using that
    by (simp add: submit_create_group_def form_onSubmit_def validate_name_cases call_def)
  show ?thesis
    using accepted refused by (auto simp: validate_name_cases js_trim_empty_iff)
qed

theorem create_group_name_validation_witness:
  "js_trim [0x20, 0x09, 0x3000] = [] \<and>
   validate_name [0x20, 0x09, 0x3000] = Some ''Group name is required'' \<and>
   submit_create_group (\<lambda>g. Inr ()) \<lparr>name = [0x20, 0x09, 0x3000]\<rparr>
     = (Inr (), [FormSetErrors [(''name'', ''Group name is required'')]]) \<and>
   js_trim [0x20, 0x41, 0x20] \<noteq> [] \<and>
   validate_name [0x20, 0x41, 0x20] = None \<and>
   (\<exists>rest. snd (submit_create_group (\<lambda>g. Inr ()) \<lparr>name = [0x20, 0x41, 0x20]\<rparr>)
             = MutateAsync \<lparr>name = [0x20, 0x41, 0x20]\<rparr> # rest)"
proof -
  have blank: "js_trim [0x20, 0x09, 0x3000] = []"
    by (simp add: js_trim_def isWhiteSpace_def)
  have inked: "js_trim [0x20, 0x41, 0x20] \<noteq> []"
    by (simp add: js_trim_def isWhiteSpace_def)
  from blank inked
    create_group_name_validation
      [of "[0x20, 0x09, 0x3000]" "\<lparr>name = [0x20, 0x09, 0x3000]\<rparr>" "\<lambda>g. Inr ()"]
    create_group_name_validation
      [of "[0x20, 0x41, 0x20]" "\<lparr>name = [0x20, 0x41, 0x20]\<rparr>" "\<lambda>g. Inr ()"]
  show ?thesis by simp
qed

text \<open>
  C9. For a user whose ability cannot \<open>manage\<close> \<open>Group\<close>, \<open>CreateGroupModal\<close> returns
  \<open>null\<close>, whatever its props (so whatever \<open>opened\<close> is) and whether or not a mutation
  is loading.
\<close>

theorem create_group_modal_hidden:
  assumes "user_data = Some u" and "ability u = Some cannot"
    and "cannot ''manage'' (SubjectType ''Group'')"
  shows "CreateGroupModal props user_data loading = None"
  using assms by (simp add: CreateGroupModal_def cannot_manage_group_def)

theorem create_group_modal_hidden_witness:
  "ability \<lparr>ability = Some (\<lambda>action subj. action = ''manage'')\<rparr>
     = Some (\<lambda>action subj. action = ''manage'') \<and>
   (\<lambda>action subj. action = ''manage'') ''manage'' (SubjectType ''Group'') \<and>
   CreateGroupModal \<lparr>opened = True\<rparr>
     (Some \<lparr>ability = Some (\<lambda>action subj. action = ''manage'')\<rparr>) False = None"
proof -
  have h2: "ability \<lparr>ability = Some (\<lambda>action (subj::casl_subject). action = ''manage'')\<rparr>
     = Some (\<lambda>action subj. action = ''manage'')" by simp
  have h3: "(\<lambda>action (subj::casl_subject). action = ''manage'') ''manage'' (SubjectType ''Group'')"
    by simp
  from create_group_modal_hidden [OF refl h2 h3, of "\<lparr>opened = True\<rparr>" False] h2 h3
  show ?thesis by simp
qed

section \<open>useSqlQueryRun: toasts and the data it returns\<close>

lemma mutationFn_job_error:
  assumes "lightdashApi api (''/projects/'' @ projectUuid @ ''/sqlRunner/run'') ''POST'' sql limit
             = Inr scheduledJob"
    and "getSqlRunnerCompleteJob api (jobId scheduledJob) = Inr job"
    and "status job = ERROR"
    and "details job = Some d"
  shows "mutationFn api projectUuid sql limit
           = (Inr None,
              [LightdashApi (''/projects/'' @ projectUuid @ ''/sqlRunner/run'') ''POST'' sql limit,
               GetSqlRunnerCompleteJob (jobId scheduledJob)] @
              (if isErrorDetails (details job) = Inr True
               then [ShowToastError ''Could not run SQL query'' (details_error (details job))]
               else []))"
  using assms
  by (cases d)
     (simp_all add: mutationFn_def scheduleSqlJob_def call_def local_def bind_io_Inr)

lemma mutationFn_job_error_absent_details:
  assumes "lightdashApi api (''/projects/'' @ projectUuid @ ''/sqlRunner/run'') ''POST'' sql limit
             = Inr scheduledJob"
    and "getSqlRunnerCompleteJob api (jobId scheduledJob) = Inr job"
    and "status job = ERROR"
    and "details job = None"
  shows "mutationFn api projectUuid sql limit
           = (Inl (TypeError ''Cannot read properties of undefined (reading error)''),
              [LightdashApi (''/projects/'' @ projectUuid @ ''/sqlRunner/run'') ''POST'' sql limit,
               GetSqlRunnerCompleteJob (jobId scheduledJob)])"
  using assms
  by (simp add: mutationFn_def scheduleSqlJob_def call_def local_def bind_io_Inr bind_io_Inl)

lemma mutate_rejected:
  assumes "fst (mutationFn api projectUuid sql limit) = Inl err"
  shows "mutate api projectUuid sql limit st
           = (st\<lparr>previousDataRef := data st, isLoading := False\<rparr>,
              snd (mutationFn api projectUuid sql limit) @
              [ShowToastError ''Could not fetch SQL query results'' None])"
  using assms
  by (cases "mutationFn api projectUuid sql limit")
     (simp add: mutate_def mutate_settle_def mutate_start_def onMutate_def onError_def)

lemma mutate_resolved:
  assumes "fst (mutationFn api projectUuid sql limit) = Inr newData"
  shows "mutate api projectUuid sql limit st
           = (st\<lparr>previousDataRef := data st, data := newData, isLoading := False\<rparr>,
              snd (mutationFn api projectUuid sql limit) @ [OnSuccess newData])"
  using assms
  by (cases "mutationFn api projectUuid sql limit")
     (simp add: mutate_def mutate_settle_def mutate_start_def onMutate_def onSuccess_def)

lemma requests_of_mutationFn:
  "\<exists>job_id url.
     filter is_request (snd (mutationFn api projectUuid sql limit))
       \<in> {[LightdashApi (''/projects/'' @ projectUuid @ ''/sqlRunner/run'') ''POST'' sql limit],
          [LightdashApi (''/projects/'' @ projectUuid @ ''/sqlRunner/run'') ''POST'' sql limit,
           GetSqlRunnerCompleteJob job_id],
          [LightdashApi (''/projects/'' @ projectUuid @ ''/sqlRunner/run'') ''POST'' sql limit,
           GetSqlRunnerCompleteJob job_id, GetResultsFromStream url]}"
proof (cases "lightdashApi api (''/projects/'' @ projectUuid @ ''/sqlRunner/run'') ''POST'' sql limit")
  case (Inl e)
  then show ?thesis
    by (simp add: mutationFn_def scheduleSqlJob_def call_def bind_io_Inl)
next
  case scheduled: (Inr scheduledJob)
  show ?thesis
  proof (cases "getSqlRunnerCompleteJob api (jobId scheduledJob)")
    case (Inl e)
    with scheduled show ?thesis
      by (simp add: mutationFn_def scheduleSqlJob_def call_def bind_io_Inl bind_io_Inr)
  next
    case completed: (Inr job)
    show ?thesis
    proof (cases "status job = ERROR")
      case True
      show ?thesis
      proof (cases "details job")
        case None
        from mutationFn_job_error_absent_details [OF scheduled completed True None]
        show ?thesis by simp
      next
        case (Some d)
        from mutationFn_job_error [OF scheduled completed True Some]
        show ?thesis by simp
      qed
    next
      case False
      with scheduled completed show ?thesis
        by (cases "getResultsFromStream api
                     (if details job \<noteq> None \<and> isErrorDetails (details job) = Inr False
                      then details_fileUrl (details job) else None)")
           (auto simp: mutationFn_def scheduleSqlJob_def call_def local_def bind_io_Inl
                 bind_io_Inr Let_def)
    qed
  qed
qed

lemma requests_of_mutate:
  "filter is_request (snd (mutate api projectUuid sql limit st))
     = filter is_request (snd (mutationFn api projectUuid sql limit))"
  by (cases "mutationFn api projectUuid sql limit"; cases "fst (mutationFn api projectUuid sql limit)")
     (simp_all add: mutate_def mutate_settle_def mutate_start_def onMutate_def onSuccess_def onError_def)

text \<open>
  C6 (as amended). When the completed job has status ERROR and carries details, the
  mutation resolves to \<open>undefined\<close>, and the toast \<open>'Could not run SQL query'\<close> is shown
  exactly when those details are error details. When the mutation function rejects,
  the toast \<open>'Could not fetch SQL query results'\<close> is shown and the data is left as it
  was. In every run each request is sent at most once, in order: nothing is retried.
\<close>

theorem job_error_and_failure_toasts:
  "(lightdashApi api (''/projects/'' @ projectUuid @ ''/sqlRunner/run'') ''POST'' sql limit
      = Inr scheduledJob \<and>
    getSqlRunnerCompleteJob api (jobId scheduledJob) = Inr job \<and> status job = ERROR \<and>
    details job = Some d
    \<longrightarrow>
      mutate api projectUuid sql limit st
        = (st\<lparr>previousDataRef := data st, data := None, isLoading := False\<rparr>,
           [LightdashApi (''/projects/'' @ projectUuid @ ''/sqlRunner/run'') ''POST'' sql limit,
            GetSqlRunnerCompleteJob (jobId scheduledJob)] @
           (if isErrorDetails (details job) = Inr True
            then [ShowToastError ''Could not run SQL query'' (details_error (details job))]
            else []) @
           [OnSuccess None])) \<and>
   (fst (mutationFn api projectUuid sql limit) = Inl err
    \<longrightarrow>
      mutate api projectUuid sql limit st
        = (st\<lparr>previousDataRef := data st, isLoading := False\<rparr>,
           snd (mutationFn api projectUuid sql limit) @
           [ShowToastError ''Could not fetch SQL query results'' None])) \<and>
   (\<exists>job_id url.
      filter is_request (snd (mutate api projectUuid sql limit st))
        \<in> {[LightdashApi (''/projects/'' @ projectUuid @ ''/sqlRunner/run'') ''POST'' sql limit],
           [LightdashApi (''/projects/'' @ projectUuid @ ''/sqlRunner/run'') ''POST'' sql limit,
            GetSqlRunnerCompleteJob job_id],
           [LightdashApi (''/projects/'' @ projectUuid @ ''/sqlRunner/run'') ''POST'' sql limit,
            GetSqlRunnerCompleteJob job_id, GetResultsFromStream url]})"
proof (intro conjI impI)
  assume job_error:
    "lightdashApi api (''/projects/'' @ projectUuid @ ''/sqlRunner/run'') ''POST'' sql limit
       = Inr scheduledJob \<and>
     getSqlRunnerCompleteJob api (jobId scheduledJob) = Inr job \<and> status job = ERROR \<and>
     details job = Some d"
  then have fn: "mutationFn api projectUuid sql limit
           = (Inr None,
              [LightdashApi (''/projects/'' @ projectUuid @ ''/sqlRunner/run'') ''POST'' sql limit,
               GetSqlRunnerCompleteJob (jobId scheduledJob)] @
              (if isErrorDetails (details job) = Inr True
               then [ShowToastError ''Could not run SQL query'' (details_error (details job))]
               else []))"
    by (intro mutationFn_job_error) simp_all
  then have "fst (mutationFn api projectUuid sql limit) = Inr None"
    by simp
  from mutate_resolved [OF this, of st] fn
  show "mutate api projectUuid sql limit st
        = (st\<lparr>previousDataRef := data st, data := None, isLoading := False\<rparr>,
           [LightdashApi (''/projects/'' @ projectUuid @ ''/sqlRunner/run'') ''POST'' sql limit,
            GetSqlRunnerCompleteJob (jobId scheduledJob)] @
           (if isErrorDetails (details job) = Inr True
            then [ShowToastError ''Could not run SQL query'' (details_error (details job))]
            else []) @
           [OnSuccess None])"
    by simp
next
  assume "fst (mutationFn api projectUuid sql limit) = Inl err"
  then show "mutate api projectUuid sql limit st
        = (st\<lparr>previousDataRef := data st, isLoading := False\<rparr>,
           snd (mutationFn api projectUuid sql limit) @
           [ShowToastError ''Could not fetch SQL query results'' None])"
    by (rule mutate_rejected)
next
  show "\<exists>job_id url.
      filter is_request (snd (mutate api projectUuid sql limit st))
        \<in> {[LightdashApi (''/projects/'' @ projectUuid @ ''/sqlRunner/run'') ''POST'' sql limit],
           [LightdashApi (''/projects/'' @ projectUuid @ ''/sqlRunner/run'') ''POST'' sql limit,
            GetSqlRunnerCompleteJob job_id],
           [LightdashApi (''/projects/'' @ projectUuid @ ''/sqlRunner/run'') ''POST'' sql limit,
            GetSqlRunnerCompleteJob job_id, GetResultsFromStream url]}"
    unfolding requests_of_mutate by (rule requests_of_mutationFn)
qed

theorem job_error_and_failure_toasts_witness:
  "lightdashApi (demo_api \<lparr>status = ERROR, details = Some (ErrorDetails ''syntax error'')\<rparr>)
     (''/projects/'' @ ''p1'' @ ''/sqlRunner/run'') ''POST'' ''select'' (Some 500)
     = Inr \<lparr>jobId = ''job1''\<rparr> \<and>
   getSqlRunnerCompleteJob
     (demo_api \<lparr>status = ERROR, details = Some (ErrorDetails ''syntax error'')\<rparr>) ''job1''
     = Inr \<lparr>status = ERROR, details = Some (ErrorDetails ''syntax error'')\<rparr> \<and>
   mutate (demo_api \<lparr>status = ERROR, details = Some (ErrorDetails ''syntax error'')\<rparr>)
     ''p1'' ''select'' (Some 500) shown_before
     = (\<lparr>data = None,
         previousDataRef = Some \<lparr>results = [''old''], columns = [''c'']\<rparr>,
         isLoading = False\<rparr>,
        [LightdashApi ''/projects/p1/sqlRunner/run'' ''POST'' ''select'' (Some 500),
         GetSqlRunnerCompleteJob ''job1'',
         ShowToastError ''Could not run SQL query'' (Some ''syntax error''),
         OnSuccess None]) \<and>
   fst (mutationFn offline_api ''p1'' ''select'' (Some 500)) = Inl (ApiError ''network'') \<and>
   mutate offline_api ''p1'' ''select'' (Some 500) shown_before
     = (\<lparr>data = Some \<lparr>results = [''old''], columns = [''c'']\<rparr>,
         previousDataRef = Some \<lparr>results = [''old''], columns = [''c'']\<rparr>,
         isLoading = False\<rparr>,
        [LightdashApi ''/projects/p1/sqlRunner/run'' ''POST'' ''select'' (Some 500),
         ShowToastError ''Could not fetch SQL query results'' None])"
proof -
  have h1: "lightdashApi (demo_api \<lparr>status = ERROR, details = Some (ErrorDetails ''syntax error'')\<rparr>)
       (''/projects/'' @ ''p1'' @ ''/sqlRunner/run'') ''POST'' ''select'' (Some 500)
       = Inr \<lparr>jobId = ''job1''\<rparr> \<and>
     getSqlRunnerCompleteJob
       (demo_api \<lparr>status = ERROR, details = Some (ErrorDetails ''syntax error'')\<rparr>)
       (jobId \<lparr>jobId = ''job1''\<rparr>)
       = Inr \<lparr>status = ERROR, details = Some (ErrorDetails ''syntax error'')\<rparr> \<and>
     status \<lparr>status = ERROR, details = Some (ErrorDetails ''syntax error'')\<rparr> = ERROR \<and>
     details \<lparr>status = ERROR, details = Some (ErrorDetails ''syntax error'')\<rparr>
       = Some (ErrorDetails ''syntax error'')"
    by (simp add: demo_api_def)
  have h2: "fst (mutationFn offline_api ''p1'' ''select'' (Some 500)) = Inl (ApiError ''network'')"
    by (simp add: mutationFn_def scheduleSqlJob_def offline_api_def call_def bind_io_Inl)
  have t2: "snd (mutationFn offline_api ''p1'' ''select'' (Some 500))
              = [LightdashApi ''/projects/p1/sqlRunner/run'' ''POST'' ''select'' (Some 500)]"
    by (simp add: mutationFn_def scheduleSqlJob_def offline_api_def call_def bind_io_Inl)
  from h1 h2 t2
    job_error_and_failure_toasts
      [where api = "demo_api \<lparr>status = ERROR, details = Some (ErrorDetails ''syntax error'')\<rparr>"
         and projectUuid = "''p1''" and sql = "''select''" and limit = "Some 500"
         and scheduledJob = "\<lparr>jobId = ''job1''\<rparr>"
         and job = "\<lparr>status = ERROR, details = Some (ErrorDetails ''syntax error'')\<rparr>"
         and d = "ErrorDetails ''syntax error''" and st = shown_before]
    job_error_and_failure_toasts
      [where api = offline_api and projectUuid = "''p1''" and sql = "''select''"
         and limit = "Some 500" and st = shown_before and err = "ApiError ''network''"]
  show ?thesis by (simp add: shown_before_def)
qed

text \<open>
  C6 as written fails for a job with status ERROR whose details are not error details:
  the run resolves to \<open>undefined\<close> through \<open>onSuccess\<close> and no toast is shown at all.
\<close>

theorem job_error_without_toast:
  "status \<lparr>status = ERROR, details = Some (ResultsDetails ''https://files.example/f1'' [''c''])\<rparr>
     = ERROR \<and>
   mutate
     (demo_api \<lparr>status = ERROR,
                details = Some (ResultsDetails ''https://files.example/f1'' [''c''])\<rparr>)
     ''p1'' ''select'' (Some 500) shown_before
     = (\<lparr>data = None,
         previousDataRef = Some \<lparr>results = [''old''], columns = [''c'']\<rparr>,
         isLoading = False\<rparr>,
        [LightdashApi ''/projects/p1/sqlRunner/run'' ''POST'' ''select'' (Some 500),
         GetSqlRunnerCompleteJob ''job1'',
         OnSuccess None]) \<and>
   filter is_toast
     (snd (mutate
            (demo_api \<lparr>status = ERROR,
                       details = Some (ResultsDetails ''https://files.example/f1'' [''c''])\<rparr>)
            ''p1'' ''select'' (Some 500) shown_before)) = []"
  by (simp add: mutate_def mutate_settle_def mutate_start_def onMutate_def onSuccess_def
        mutationFn_def scheduleSqlJob_def demo_api_def shown_before_def
        call_def local_def bind_io_def)

text \<open>
  What the hook returns, in every run. While the mutation is in flight, \<open>isLoading\<close> is
  true and the hook returns the data saved at mutation start, which is the data of the
  last run that resolved. Once the mutation has settled, \<open>isLoading\<close> is false and the
  hook returns the latest result: what this run resolved to, or the data as it was
  when this run rejected. A run whose job ended with status ERROR and carries details
  resolves to \<open>undefined\<close>, which replaces the previous data only at that point.
\<close>

lemma returned_data:
  "isLoading (mutate_start st) \<and>
   previousDataRef (mutate_start st) = data st \<and>
   currentData (mutate_start st) = data st \<and>
   \<not> isLoading (fst (mutate api projectUuid sql limit st)) \<and>
   currentData (fst (mutate api projectUuid sql limit st))
     = (case fst (mutationFn api projectUuid sql limit) of
          Inr newData \<Rightarrow> newData
        | Inl err \<Rightarrow> data st) \<and>
   (lightdashApi api (''/projects/'' @ projectUuid @ ''/sqlRunner/run'') ''POST'' sql limit
      = Inr scheduledJob \<and>
    getSqlRunnerCompleteJob api (jobId scheduledJob) = Inr job \<and> status job = ERROR \<and>
    details job = Some d
    \<longrightarrow> currentData (fst (mutate api projectUuid sql limit st)) = None) \<and>
   currentData any_st = (if isLoading any_st then previousDataRef any_st else data any_st)"
proof -
  have returned:
    "currentData any_st = (if isLoading any_st then previousDataRef any_st else data any_st)"
    by (simp add: currentData_def)
  have in_flight: "isLoading (mutate_start st)" "previousDataRef (mutate_start st) = data st"
    "currentData (mutate_start st) = data st"
    by (simp_all add: mutate_start_def onMutate_def currentData_def)
  have settled: "\<not> isLoading (fst (mutate api projectUuid sql limit st)) \<and>
    currentData (fst (mutate api projectUuid sql limit st))
     = (case fst (mutationFn api projectUuid sql limit) of
          Inr newData \<Rightarrow> newData
        | Inl err \<Rightarrow> data st)"
  proof (cases "fst (mutationFn api projectUuid sql limit)")
    case (Inl err)
    from mutate_rejected [OF this, of st] Inl show ?thesis
      by (simp add: currentData_def)
  next
    case (Inr newData)
    from mutate_resolved [OF this, of st] Inr show ?thesis
      by (simp add: currentData_def)
  qed
  have errored: "currentData (fst (mutate api projectUuid sql limit st)) = None"
    if "lightdashApi api (''/projects/'' @ projectUuid @ ''/sqlRunner/run'') ''POST'' sql limit
          = Inr scheduledJob \<and>
        getSqlRunnerCompleteJob api (jobId scheduledJob) = Inr job \<and> status job = ERROR \<and>
        details job = Some d"
  proof -
    from that have "mutationFn api projectUuid sql limit
           = (Inr None,
              [LightdashApi (''/projects/'' @ projectUuid @ ''/sqlRunner/run'') ''POST'' sql limit,
               GetSqlRunnerCompleteJob (jobId scheduledJob)] @
              (if isErrorDetails (details job) = Inr True
               then [ShowToastError ''Could not run SQL query'' (details_error (details job))]
               else []))"
      by (intro mutationFn_job_error) simp_all
    then have "fst (mutationFn api projectUuid sql limit) = Inr None"
      by simp
    with settled show ?thesis by simp
  qed
  from in_flight settled errored returned show ?thesis by blast
qed

text \<open>
  C10. The hook keeps the previous data while a run is in flight and returns the latest
  result once it has settled, as \<open>returned_data\<close> says, but a job error does not always
  end in \<open>undefined\<close>. For a job with status ERROR whose details are absent, the unguarded
  \<open>isErrorDetails(job.details)\<close> of line 227 throws before \<open>return undefined\<close> is reached:
  the run rejects, \<open>onError\<close> shows \<open>'Could not fetch SQL query results'\<close>, and the hook
  goes on returning the previous data.
\<close>

theorem job_error_with_absent_details_keeps_data:
  "mutate (demo_api \<lparr>status = ERROR, details = None\<rparr>) ''p1'' ''select'' None shown_before
     = (\<lparr>data = Some \<lparr>results = [''old''], columns = [''c'']\<rparr>,
         previousDataRef = Some \<lparr>results = [''old''], columns = [''c'']\<rparr>,
         isLoading = False\<rparr>,
        [LightdashApi ''/projects/p1/sqlRunner/run'' ''POST'' ''select'' None,
         GetSqlRunnerCompleteJob ''job1'',
         ShowToastError ''Could not fetch SQL query results'' None]) \<and>
   currentData
     (fst (mutate (demo_api \<lparr>status = ERROR, details = None\<rparr>)
             ''p1'' ''select'' None shown_before))
     = Some \<lparr>results = [''old''], columns = [''c'']\<rparr> \<and>
   currentData
     (fst (mutate (demo_api \<lparr>status = ERROR, details = None\<rparr>)
             ''p1'' ''select'' None shown_before)) \<noteq> None"
  by (simp add: mutate_def mutate_settle_def mutate_start_def onMutate_def onError_def
        mutationFn_def scheduleSqlJob_def demo_api_def shown_before_def currentData_def
        call_def local_def bind_io_def)

end
